theory Spec2Isabelle
  imports Main "HOL-Library.Sublist" "HOL-Library.Multiset" "HOL-Library.Char_ord"
    "HOL-Library.List_Lexorder"
begin

section \<open>The test orchestration of test.py\<close>

text \<open>
  The development follows \<^verbatim>\<open>test.py\<close> on a POSIX host (\<^verbatim>\<open>sys.platform\<close> is not
  \<^verbatim>\<open>win32\<close>): the worker thread (\<^verbatim>\<open>worker_thread.run\<close>), the command line built by
  \<^verbatim>\<open>run_job_synchronously\<close>, the loader of the previous results
  (\<^verbatim>\<open>load_previously_successful_tests\<close>), and the three stages of \<^verbatim>\<open>run_tests\<close> that
  follow discovery: the dispatch of jobs, the collection loop and the return code.

  What the program obtains from outside is an explicit input of the model: the exit code of
  a child process, the contents of a file and the tree that \<^verbatim>\<open>xml.etree\<close> parses from it,
  the value that \<^verbatim>\<open>eval\<close> gives to a condition of \<^verbatim>\<open>examples-to-run.py\<close>, and the value
  of the global \<^verbatim>\<open>thread_exit\<close> that a worker reads for a job. Wall-clock times and the
  captured output streams are only printed or written as the \<^verbatim>\<open>Time\<close> element, and are
  left out. A character of a string stands for the code point of its number.
\<close>

subsection \<open>Data\<close>

text \<open>An element of \<^verbatim>\<open>xml.etree.ElementTree\<close>: tag, text (\<^verbatim>\<open>None\<close> when absent), children.\<close>

datatype xml = Element (tag: string) (etext: "string option") (children: "xml list")

text \<open>
  A file on disk: the text that \<^verbatim>\<open>read()\<close> returns when the file is opened with
  \<^verbatim>\<open>encoding="utf-8"\<close> (\<open>None\<close> when its bytes are not UTF-8 and \<^verbatim>\<open>read()\<close> raises
  \<^verbatim>\<open>UnicodeDecodeError\<close>), and what \<^verbatim>\<open>ET.parse\<close> makes of the file (\<open>None\<close> when it
  raises \<^verbatim>\<open>ParseError\<close>).
\<close>

record disk_file =
  content :: "string option"
  tree :: "xml option"

datatype error = SystemExit int | FileNotFoundError | UnicodeDecodeError | AttributeError

text \<open>The options of the command line that the modelled code reads.\<close>

record args =
  valgrind :: bool
  update_data :: bool
  rerun_failed :: bool
  multiple :: bool
  fullness :: string
  suite :: string
  example :: string
  pyexample :: string
  constrain :: string
  buildpath :: string

text \<open>
  The globals set by \<^verbatim>\<open>read_ns3_config\<close> and at the start of \<^verbatim>\<open>run_tests\<close>;
  \<open>PYTHON0\<close> is \<^verbatim>\<open>PYTHON[0]\<close>, \<open>getcwd\<close> is \<^verbatim>\<open>os.getcwd()\<close>.
\<close>

record config =
  NS3_BASEDIR :: string
  NS3_BUILDDIR :: string
  PYTHON0 :: string
  test_runner_name :: string
  ENABLE_EXAMPLES :: bool
  ENABLE_PYTHON_BINDINGS :: bool
  getcwd :: string
  testpy_output_dir :: string
  ns3_runnable_programs_dictionary :: "string list"
  ns3_runnable_scripts :: "string list"

text \<open>
  The host: \<open>popen cmd dir\<close> is the return code of the shell command \<open>cmd\<close> run in
  \<open>dir\<close>, \<open>files\<close> maps a path to the file that \<^verbatim>\<open>open\<close> finds there (\<open>None\<close>
  when it raises \<^verbatim>\<open>FileNotFoundError\<close>), \<open>path_exists\<close> is \<^verbatim>\<open>os.path.exists\<close>, and
  \<open>glob_recursive name\<close> is \<^verbatim>\<open>glob.glob("./**/" + name, recursive=True)\<close>.
\<close>

record env =
  popen :: "string \<Rightarrow> string \<Rightarrow> int"
  files :: "string \<Rightarrow> disk_file option"
  path_exists :: "string \<Rightarrow> bool"
  glob_recursive :: "string \<Rightarrow> string list"

text \<open>Class \<^verbatim>\<open>Job\<close>. \<^verbatim>\<open>returncode\<close> starts as \<^verbatim>\<open>False\<close>, which Python compares equal to 0.\<close>

record Job =
  is_break :: bool
  is_skip :: bool
  skip_reason :: string
  is_example :: bool
  is_pyexample :: bool
  shell_command :: string
  display_name :: string
  basedir :: string
  tempdir :: string
  cwd :: string
  tmp_file_name :: string
  returncode :: int
  build_path :: string

definition Job_init :: Job where
  "Job_init = \<lparr> is_break = False, is_skip = False, skip_reason = '''', is_example = False,
     is_pyexample = False, shell_command = '''', display_name = '''', basedir = '''',
     tempdir = '''', cwd = '''', tmp_file_name = '''', returncode = 0, build_path = '''' \<rparr>"

subsection \<open>String and path helpers of the Python library\<close>

text \<open>\<^verbatim>\<open>os.path.join(a, b)\<close> of \<^verbatim>\<open>posixpath\<close>, for two components.\<close>

definition os_path_join :: "string \<Rightarrow> string \<Rightarrow> string" where
  "os_path_join a b =
     (if b \<noteq> [] \<and> hd b = CHR ''/'' then b
      else if a = [] \<or> last a = CHR ''/'' then a @ b
      else a @ ''/'' @ b)"

text \<open>\<^verbatim>\<open>os.path.basename(p)\<close>: what follows the last slash.\<close>

definition os_path_basename :: "string \<Rightarrow> string" where
  "os_path_basename p = rev (takeWhile (\<lambda>c. c \<noteq> CHR ''/'') (rev p))"

text \<open>\<^verbatim>\<open>s.split(" ", 1)[0]\<close>: what precedes the first space.\<close>

definition split_first :: "string \<Rightarrow> string" where
  "split_first s = takeWhile (\<lambda>c. c \<noteq> CHR '' '') s"

text \<open>
  \<^verbatim>\<open>s.strip()\<close>: the white space of \<^verbatim>\<open>str.isspace\<close> among the first 256 code points,
  which includes U+0085 and U+00A0.
\<close>

definition isspace :: "char \<Rightarrow> bool" where
  "isspace c = ((of_char c :: nat) \<in> {9, 10, 11, 12, 13, 28, 29, 30, 31, 32, 133, 160})"

definition strip :: "string \<Rightarrow> string" where
  "strip s = rev (dropWhile isspace (rev (dropWhile isspace s)))"

text \<open>\<^verbatim>\<open>s.upper()\<close> on ASCII text.\<close>

definition upper_char :: "char \<Rightarrow> char" where
  "upper_char c =
     (if 97 \<le> (of_char c :: nat) \<and> (of_char c :: nat) \<le> 122
      then char_of ((of_char c :: nat) - 32) else c)"

definition upper :: "string \<Rightarrow> string" where
  "upper s = map upper_char s"

text \<open>\<^verbatim>\<open>s.find(sub)\<close>: the lowest index at which \<open>sub\<close> occurs, or -1.\<close>

fun find_from :: "string \<Rightarrow> string \<Rightarrow> nat \<Rightarrow> int" where
  "find_from sub [] i = (if sub = [] then int i else - 1)"
| "find_from sub (c # cs) i =
     (if prefix sub (c # cs) then int i else find_from sub cs (Suc i))"

definition py_find :: "string \<Rightarrow> string \<Rightarrow> int" where
  "py_find s sub = find_from sub s 0"

text \<open>The slices \<^verbatim>\<open>s[:i]\<close> and \<^verbatim>\<open>s[i:]\<close>; a negative index counts from the end.\<close>

definition slice_index :: "string \<Rightarrow> int \<Rightarrow> nat" where
  "slice_index s i = (if i < 0 then nat (max 0 (int (length s) + i)) else nat i)"

definition slice_to :: "string \<Rightarrow> int \<Rightarrow> string" where
  "slice_to s i = take (slice_index s i) s"

definition slice_from :: "string \<Rightarrow> int \<Rightarrow> string" where
  "slice_from s i = drop (slice_index s i) s"

subsection \<open>Running one job\<close>

definition VALGRIND_SUPPRESSIONS_FILE :: string where
  "VALGRIND_SUPPRESSIONS_FILE = ''.ns3.supp''"

text \<open>The command that \<^verbatim>\<open>run_job_synchronously\<close> hands to the shell.\<close>

definition job_command :: "config \<Rightarrow> string \<Rightarrow> bool \<Rightarrow> bool \<Rightarrow> string \<Rightarrow> string" where
  "job_command cfg shell_cmd valgr is_python bpath =
     (let suppressions_path = os_path_join (NS3_BASEDIR cfg) VALGRIND_SUPPRESSIONS_FILE;
          path_cmd =
            (if is_python then PYTHON0 cfg @ '' '' @ os_path_join (NS3_BASEDIR cfg) shell_cmd
             else if length bpath \<noteq> 0 then os_path_join bpath shell_cmd
             else os_path_join (NS3_BUILDDIR cfg) shell_cmd)
      in if valgr
         then ''valgrind --suppressions='' @ suppressions_path
              @ '' --leak-check=full --show-reachable=yes --error-exitcode=2''
              @ '' --errors-for-leak-kinds=all '' @ path_cmd
         else path_cmd)"

text \<open>
  \<^verbatim>\<open>run_job_synchronously\<close>: the return code of the child process, together with the
  launch itself (command and directory), so that launches can be counted.
\<close>

definition run_job_synchronously ::
  "config \<Rightarrow> env \<Rightarrow> string \<Rightarrow> string \<Rightarrow> bool \<Rightarrow> bool \<Rightarrow> string \<Rightarrow> int \<times> (string \<times> string)" where
  "run_job_synchronously cfg e shell_cmd directory valgr is_python bpath =
     (let cmd = job_command cfg shell_cmd valgr is_python bpath
      in (popen e cmd directory, (cmd, directory)))"

text \<open>
  The body of the loop of \<^verbatim>\<open>worker_thread.run\<close> for a job that is not the stop
  sentinel. \<open>thread_exit\<close> is the value of the global flag when the worker tests it.
  The result is the job put on the output queue and the launches made.
\<close>

definition worker_body ::
  "config \<Rightarrow> args \<Rightarrow> env \<Rightarrow> bool \<Rightarrow> Job \<Rightarrow> Job \<times> (string \<times> string) list" where
  "worker_body cfg a e thread_exit job =
     (if thread_exit then (job\<lparr>is_break := True\<rparr>, [])
      else if is_skip job then (job, [])
      else if is_example job \<or> is_pyexample job then
        (let (rc, launch) = run_job_synchronously cfg e (shell_command job) (cwd job)
                              (valgrind a) (is_pyexample job) (build_path job)
         in (job\<lparr>returncode := rc\<rparr>, [launch]))
      else
        (let upd = (if update_data a then ''--update-data'' else '''');
             (rc, launch) = run_job_synchronously cfg e
                  (shell_command job @ '' --xml --tempdir='' @ tempdir job
                     @ '' --out='' @ tmp_file_name job @ '' '' @ upd)
                  (cwd job) (valgrind a) False ''''
         in (job\<lparr>returncode := rc\<rparr>, [launch])))"

text \<open>
  \<^verbatim>\<open>worker_thread.run\<close>: one worker, fed the jobs it takes from the input queue, each
  with the value of \<open>thread_exit\<close> it reads for that job. The worker returns at the
  first sentinel; with nothing left to take it blocks in \<^verbatim>\<open>get\<close>, which is \<open>None\<close>.
\<close>

fun worker_thread_run ::
  "config \<Rightarrow> args \<Rightarrow> env \<Rightarrow> (bool \<times> Job) list \<Rightarrow> (Job list \<times> (string \<times> string) list) option" where
  "worker_thread_run cfg a e [] = None"
| "worker_thread_run cfg a e ((thread_exit, job) # rest) =
     (if is_break job then Some ([], [])
      else (case worker_thread_run cfg a e rest of
              None \<Rightarrow> None
            | Some (out, launches) \<Rightarrow>
                (let (j, l) = worker_body cfg a e thread_exit job
                 in Some (j # out, l @ launches))))"

subsection \<open>The previous results\<close>

text \<open>
  \<^verbatim>\<open>find\<close> and \<^verbatim>\<open>findall\<close> with a plain tag: the first child of the element with that
  tag, and all its children with that tag.
\<close>

definition et_find :: "string \<Rightarrow> xml \<Rightarrow> xml option" where
  "et_find t e = List.find (\<lambda>c. tag c = t) (children e)"

definition et_findall :: "string \<Rightarrow> xml \<Rightarrow> xml list" where
  "et_findall t e = filter (\<lambda>c. tag c = t) (children e)"

text \<open>
  The truth value of \<^verbatim>\<open>root.find(tag)\<close> in an \<^verbatim>\<open>if\<close>: \<^verbatim>\<open>None\<close> is false, and an
  element is true when it has children.
\<close>

definition element_truth :: "xml option \<Rightarrow> bool" where
  "element_truth r = (case r of None \<Rightarrow> False | Some x \<Rightarrow> children x \<noteq> [])"

text \<open>
  \<^verbatim>\<open>(x.find("Name").text, x.find("Result").text)\<close>; \<^verbatim>\<open>.text\<close> of a missing child raises
  \<^verbatim>\<open>AttributeError\<close>.
\<close>

definition name_and_result :: "xml \<Rightarrow> error + (string option \<times> string option)" where
  "name_and_result x =
     (case et_find ''Name'' x of
        None \<Rightarrow> Inl AttributeError
      | Some n \<Rightarrow>
          (case et_find ''Result'' x of
             None \<Rightarrow> Inl AttributeError
           | Some r \<Rightarrow> Inr (etext n, etext r)))"

fun map_result :: "('a \<Rightarrow> error + 'b) \<Rightarrow> 'a list \<Rightarrow> error + 'b list" where
  "map_result f [] = Inr []"
| "map_result f (x # xs) =
     (case f x of
        Inl err \<Rightarrow> Inl err
      | Inr y \<Rightarrow> (case map_result f xs of Inl err \<Rightarrow> Inl err | Inr ys \<Rightarrow> Inr (y # ys)))"

text \<open>The body of the loop over \<^verbatim>\<open>["Test", "Example"]\<close>, for one \<open>test_type\<close>.\<close>

definition successful_names :: "string \<Rightarrow> xml \<Rightarrow> error + string option list" where
  "successful_names test_type root =
     (if element_truth (et_find test_type root) then
        (case map_result name_and_result (et_findall test_type root) of
           Inl err \<Rightarrow> Inl err
         | Inr temp \<Rightarrow>
             Inr (map fst (filter (\<lambda>x. snd x \<in> set [Some ''PASS'', Some ''SKIP'']) temp)))
      else Inr [])"

text \<open>The dictionary \<^verbatim>\<open>previously_run_tests_to_skip\<close>, with its keys "test" and "example".\<close>

record previously_run =
  test_names :: "string option list"
  example_names :: "string option list"

definition no_previous_run :: previously_run where
  "no_previous_run = \<lparr> test_names = [], example_names = [] \<rparr>"

text \<open>
  \<^verbatim>\<open>sorted(previous_results, key=basename, reverse=True)[0]\<close>. Python's sort is stable
  and \<^verbatim>\<open>reverse=True\<close> keeps the first of equal keys first, which is the reversal of the
  stable ascending sort of the reversed list.
\<close>

definition latest_result_file :: "(string \<times> disk_file) list \<Rightarrow> string \<times> disk_file" where
  "latest_result_file previous_results =
     hd (rev (sort_key (\<lambda>x. os_path_basename (fst x)) (rev previous_results)))"

text \<open>
  \<^verbatim>\<open>load_previously_successful_tests\<close>. \<open>previous_results\<close> is what
  \<^verbatim>\<open>glob.glob(TMP_OUTPUT_DIR + "/*-results.xml")\<close> lists, each path with its file;
  \<^verbatim>\<open>exit(-1)\<close> is \<open>SystemExit (- 1)\<close>.
\<close>

definition load_previously_successful_tests ::
  "(string \<times> disk_file) list \<Rightarrow> error + previously_run" where
  "load_previously_successful_tests previous_results =
     (if previous_results = [] then Inl (SystemExit (- 1))
      else
        (case tree (snd (latest_result_file previous_results)) of
           None \<Rightarrow> Inl (SystemExit (- 1))
         | Some root \<Rightarrow>
             (case successful_names ''Test'' root of
                Inl err \<Rightarrow> Inl err
              | Inr tests \<Rightarrow>
                  (case successful_names ''Example'' root of
                     Inl err \<Rightarrow> Inl err
                   | Inr examples \<Rightarrow>
                       Inr \<lparr> test_names = tests, example_names = examples \<rparr>))))"

subsection \<open>Dispatch\<close>

definition core_valgrind_skip_tests :: "string list" where
  "core_valgrind_skip_tests =
     [''routing-click'', ''lte-rr-ff-mac-scheduler'', ''lte-tdmt-ff-mac-scheduler'',
      ''lte-fdmt-ff-mac-scheduler'', ''lte-pf-ff-mac-scheduler'', ''lte-tta-ff-mac-scheduler'',
      ''lte-fdbet-ff-mac-scheduler'', ''lte-ttbet-ff-mac-scheduler'',
      ''lte-fdtbfq-ff-mac-scheduler'', ''lte-tdtbfq-ff-mac-scheduler'',
      ''lte-pss-ff-mac-scheduler'']"

text \<open>The reason \<^verbatim>\<open>"didn't fail in the previous run"\<close>.\<close>

definition not_failed_reason :: string where
  "not_failed_reason = ''didn'' @ [CHR 0x27] @ ''t fail in the previous run''"

text \<open>The job that the loop over \<^verbatim>\<open>suite_list\<close> queues for the suite \<open>test\<close>.\<close>

definition suite_job :: "config \<Rightarrow> args \<Rightarrow> previously_run \<Rightarrow> string \<Rightarrow> Job" where
  "suite_job cfg a prev test =
     (let job = Job_init\<lparr> is_example := False, is_pyexample := False, display_name := test,
                  tmp_file_name := os_path_join (testpy_output_dir cfg) (test @ ''.xml''),
                  cwd := getcwd cfg, basedir := getcwd cfg, tempdir := testpy_output_dir cfg \<rparr>;
          multiple_opt = (if multiple a then '''' else '' --stop-on-failure'');
          fullness_opt = (if length (fullness a) \<noteq> 0
                          then '' --fullness='' @ upper (fullness a)
                          else '' --fullness=QUICK'');
          path_cmd = os_path_join ''utils''
                       (test_runner_name cfg @ '' --test-name='' @ test @ multiple_opt
                          @ fullness_opt);
          job = job\<lparr> shell_command := path_cmd \<rparr>;
          job = (if valgrind a \<and> test \<in> set core_valgrind_skip_tests
                 then job\<lparr> is_skip := True, skip_reason := ''crashes valgrind'' \<rparr> else job);
          job = (if rerun_failed a \<and> Some test \<in> set (test_names prev)
                 then job\<lparr> is_skip := True, skip_reason := not_failed_reason \<rparr> else job)
      in job)"

definition dispatch_suites :: "config \<Rightarrow> args \<Rightarrow> previously_run \<Rightarrow> string list \<Rightarrow> Job list" where
  "dispatch_suites cfg a prev suite_list =
     map (suite_job cfg a prev) (filter (\<lambda>test. length test \<noteq> 0) (map strip suite_list))"

text \<open>
  The \<^verbatim>\<open>if\<close>/\<^verbatim>\<open>elif\<close> on \<^verbatim>\<open>args.fullness\<close> that both example loops end with;
  \<open>tier\<close> is the entry's own fullness.
\<close>

definition fullness_skip :: "args \<Rightarrow> string \<Rightarrow> Job \<Rightarrow> Job" where
  "fullness_skip a tier job =
     (if fullness a = ''QUICK'' \<and> tier \<noteq> ''QUICK''
      then job\<lparr> is_skip := True,
                skip_reason := ''skip '' @ tier @ '' examples when QUICK run selected'' \<rparr>
      else if fullness a = ''EXTENSIVE'' \<and> tier \<noteq> ''EXTENSIVE'' \<and> tier \<noteq> ''QUICK''
      then job\<lparr> is_skip := True,
                skip_reason := ''skip '' @ tier @ '' examples when EXTENSIVE run selected'' \<rparr>
      else job)"

text \<open>
  An entry of \<^verbatim>\<open>example_tests\<close> is \<^verbatim>\<open>(name, test, do_run, do_valgrind_run, fullness)\<close>;
  the two conditions are given by the value that \<^verbatim>\<open>eval\<close> returns for them.
\<close>

type_synonym example_test = "string \<times> string \<times> bool \<times> bool \<times> string"

definition example_job :: "config \<Rightarrow> args \<Rightarrow> previously_run \<Rightarrow> example_test \<Rightarrow> Job" where
  "example_job cfg a prev entry =
     (case entry of (name, test, do_run, do_valgrind_run, tier) \<Rightarrow>
       (let job = Job_init\<lparr> is_example := True, is_pyexample := False, display_name := name,
                    tmp_file_name := '''', cwd := testpy_output_dir cfg, basedir := getcwd cfg,
                    tempdir := testpy_output_dir cfg, shell_command := test,
                    build_path := buildpath a \<rparr>;
            job = (if valgrind a \<and> \<not> do_valgrind_run
                   then job\<lparr> is_skip := True, skip_reason := ''skip in valgrind runs'' \<rparr>
                   else job);
            job = (if rerun_failed a \<and> Some name \<in> set (example_names prev)
                   then job\<lparr> is_skip := True, skip_reason := not_failed_reason \<rparr> else job)
        in fullness_skip a tier job))"

text \<open>
  The loop over \<^verbatim>\<open>example_tests\<close> with its guards; \<open>example_tests\<close> is the list as the
  loop finds it, after the narrowing by \<^verbatim>\<open>--example\<close>.
\<close>

definition dispatch_examples ::
  "config \<Rightarrow> args \<Rightarrow> previously_run \<Rightarrow> example_test list \<Rightarrow> Job list" where
  "dispatch_examples cfg a prev example_tests =
     (if length (suite a) = 0 \<and> length (pyexample a) = 0
         \<and> (length (constrain a) = 0 \<or> constrain a = ''example'') \<and> ENABLE_EXAMPLES cfg
      then map (example_job cfg a prev)
             (filter (\<lambda>(name, test, do_run, do_valgrind_run, tier).
                        os_path_basename (split_first test)
                          \<in> set (ns3_runnable_programs_dictionary cfg) \<and> do_run)
                example_tests)
      else [])"

text \<open>An entry of \<^verbatim>\<open>python_tests\<close> is \<^verbatim>\<open>(test, do_run, fullness)\<close>.\<close>

type_synonym python_test = "string \<times> bool \<times> string"

definition python_job :: "config \<Rightarrow> args \<Rightarrow> python_test \<Rightarrow> Job" where
  "python_job cfg a entry =
     (case entry of (test, do_run, tier) \<Rightarrow>
       (let job = Job_init\<lparr> is_example := False, is_pyexample := True, display_name := test,
                    tmp_file_name := '''', cwd := testpy_output_dir cfg, basedir := getcwd cfg,
                    tempdir := testpy_output_dir cfg, shell_command := test,
                    build_path := '''' \<rparr>;
            job = (if valgrind a
                   then job\<lparr> is_skip := True, skip_reason := ''skip in valgrind runs'' \<rparr>
                   else job);
            job = (if \<not> ENABLE_PYTHON_BINDINGS cfg
                   then job\<lparr> is_skip := True, skip_reason := ''requires Python bindings'' \<rparr>
                   else job)
        in fullness_skip a tier job))"

text \<open>The job of the branch \<^verbatim>\<open>elif len(args.pyexample)\<close>, for the resolved script path.\<close>

definition single_python_job :: "config \<Rightarrow> string \<Rightarrow> Job" where
  "single_python_job cfg script =
     Job_init\<lparr> is_pyexample := True, display_name := script, tmp_file_name := '''',
               cwd := testpy_output_dir cfg, basedir := getcwd cfg,
               tempdir := testpy_output_dir cfg, shell_command := script, build_path := '''' \<rparr>"

definition dispatch_python :: "config \<Rightarrow> args \<Rightarrow> env \<Rightarrow> python_test list \<Rightarrow> Job list" where
  "dispatch_python cfg a e python_tests =
     (if length (suite a) = 0 \<and> length (example a) = 0 \<and> length (pyexample a) = 0 then
        (if length (constrain a) = 0 \<or> constrain a = ''pyexample''
         then map (python_job cfg a)
                (filter (\<lambda>(test, do_run, tier).
                           os_path_basename (split_first test) \<in> set (ns3_runnable_scripts cfg)
                           \<and> do_run)
                   python_tests)
         else [])
      else if length (pyexample a) \<noteq> 0 then
        (let script =
               (if \<not> path_exists e (pyexample a)
                then (case glob_recursive e (pyexample a) of
                        [] \<Rightarrow> pyexample a
                      | f # fs \<Rightarrow> f)
                else pyexample a);
             example_name = os_path_basename script
         in if example_name \<notin> set (ns3_runnable_scripts cfg) then []
            else if \<not> path_exists e script then []
            else [single_python_job cfg script])
      else [])"

text \<open>
  The jobs put on the input queue, in order, before the sentinels; \<^verbatim>\<open>jobs\<close> and
  \<^verbatim>\<open>total_tests\<close> are both the length of this list.
\<close>

definition dispatch ::
  "config \<Rightarrow> args \<Rightarrow> env \<Rightarrow> previously_run \<Rightarrow> string list \<Rightarrow> example_test list
     \<Rightarrow> python_test list \<Rightarrow> Job list" where
  "dispatch cfg a e prev suite_list example_tests python_tests =
     dispatch_suites cfg a prev suite_list
     @ dispatch_examples cfg a prev example_tests
     @ dispatch_python cfg a e python_tests"


subsection \<open>Collection\<close>

text \<open>
  What the collection loop appends to \<^verbatim>\<open>xml_results_file\<close>: an \<^verbatim>\<open>Example\<close> element or
  a \<^verbatim>\<open>Test\<close> element of its own making (name, result, reason when skipped), or the text
  of a suite's temporary file.
\<close>

datatype report_entry =
    ExampleRecord string string "string option"
  | TestRecord string string "string option"
  | SuiteOutput string

text \<open>
  The variables of \<^verbatim>\<open>run_tests\<close> that the loop updates, the entries appended to the
  results file, and the progress lines printed: index, \<^verbatim>\<open>total_tests\<close>, status, kind and
  display name.
\<close>

record collector =
  passed_tests :: nat
  failed_tests :: nat
  failed_testnames :: "string list"
  crashed_tests :: nat
  crashed_testnames :: "string list"
  valgrind_errors :: nat
  valgrind_testnames :: "string list"
  skipped_tests :: nat
  skipped_testnames :: "string list"
  failed_jobs :: "Job list"
  xml_results :: "report_entry list"
  printed :: "(nat \<times> nat \<times> string \<times> string \<times> string) list"

definition collector_init :: collector where
  "collector_init = \<lparr> passed_tests = 0, failed_tests = 0, failed_testnames = [],
     crashed_tests = 0, crashed_testnames = [], valgrind_errors = 0, valgrind_testnames = [],
     skipped_tests = 0, skipped_testnames = [], failed_jobs = [], xml_results = [],
     printed = [] \<rparr>"

text \<open>The variable \<^verbatim>\<open>kind\<close> of the loop body.\<close>

definition job_kind :: "Job \<Rightarrow> string" where
  "job_kind job = (if is_example job \<or> is_pyexample job then ''Example'' else ''TestSuite'')"

text \<open>The \<^verbatim>\<open>if\<close> that follows: the status and the counters.\<close>

definition job_status :: "collector \<Rightarrow> Job \<Rightarrow> string \<times> collector" where
  "job_status st job =
     (if is_skip job then
        (''SKIP'',
         st\<lparr> skipped_tests := skipped_tests st + 1,
             skipped_testnames :=
               skipped_testnames st @ [display_name job @ '' ('' @ skip_reason job @ '')''] \<rparr>)
      else
        (let st = st\<lparr> failed_jobs := failed_jobs st @ [job] \<rparr>
         in if returncode job = 0 then
              (''PASS'', st\<lparr> passed_tests := passed_tests st + 1,
                            failed_jobs := butlast (failed_jobs st) \<rparr>)
            else if returncode job = 1 then
              (''FAIL'', st\<lparr> failed_tests := failed_tests st + 1,
                            failed_testnames := failed_testnames st @ [display_name job] \<rparr>)
            else if returncode job = 2 then
              (''VALGR'', st\<lparr> valgrind_errors := valgrind_errors st + 1,
                             valgrind_testnames := valgrind_testnames st @ [display_name job] \<rparr>)
            else
              (''CRASH'', st\<lparr> crashed_tests := crashed_tests st + 1,
                             crashed_testnames := crashed_testnames st @ [display_name job] \<rparr>)))"

text \<open>The \<^verbatim>\<open>Example\<close> element written for an example job.\<close>

definition example_record :: "string \<Rightarrow> Job \<Rightarrow> report_entry" where
  "example_record status job =
     (if status = ''PASS'' then ExampleRecord (display_name job) ''PASS'' None
      else if status = ''FAIL'' then ExampleRecord (display_name job) ''FAIL'' None
      else if status = ''VALGR'' then ExampleRecord (display_name job) ''VALGR'' None
      else if status = ''SKIP'' then ExampleRecord (display_name job) ''SKIP'' (Some (skip_reason job))
      else ExampleRecord (display_name job) ''CRASH'' None)"

text \<open>
  The text copied from the temporary file of a suite; for the status VALGR the text of the
  first \<^verbatim>\<open>Result\<close> element is replaced.
\<close>

definition suite_contents :: "string \<Rightarrow> string \<Rightarrow> string" where
  "suite_contents status contents =
     (if status = ''VALGR'' then
        (let pre = py_find contents ''<Result>'' + int (length ''<Result>'');
             post = py_find contents ''</Result>''
         in slice_to contents pre @ ''VALGR'' @ slice_from contents post)
      else contents)"

text \<open>
  The \<^verbatim>\<open>try\<close> block: \<^verbatim>\<open>ET.parse(...).find("Result").text in ["PASS", "SKIP"]\<close>, where any
  exception is swallowed.
\<close>

definition result_passed_or_skipped :: "disk_file \<Rightarrow> bool" where
  "result_passed_or_skipped f =
     (case tree f of
        None \<Rightarrow> False
      | Some root \<Rightarrow>
          (case et_find ''Result'' root of
             None \<Rightarrow> False
           | Some r \<Rightarrow> etext r \<in> set [Some ''PASS'', Some ''SKIP'']))"

text \<open>
  The body of the collection loop for the job taken from the output queue at index \<open>i\<close>.
  Opening a temporary file that does not exist raises \<^verbatim>\<open>FileNotFoundError\<close>, and reading
  one whose bytes are not UTF-8 raises \<^verbatim>\<open>UnicodeDecodeError\<close>; both happen before anything
  is written for the job and outside the \<^verbatim>\<open>try\<close> block, so they leave \<^verbatim>\<open>run_tests\<close>.
\<close>

definition collect_job :: "env \<Rightarrow> nat \<Rightarrow> nat \<Rightarrow> collector \<Rightarrow> Job \<Rightarrow> error + collector" where
  "collect_job e total_tests i st job =
     (if is_break job then Inr st
      else
        (let kind = job_kind job;
             (status, st) = job_status st job;
             st = st\<lparr> printed := printed st @ [(i, total_tests, status, kind, display_name job)] \<rparr>
         in if is_example job \<or> is_pyexample job then
              Inr (st\<lparr> xml_results := xml_results st @ [example_record status job] \<rparr>)
            else if is_skip job then
              Inr (st\<lparr> xml_results := xml_results st
                          @ [TestRecord (display_name job) ''SKIP'' (Some (skip_reason job))] \<rparr>)
            else
              (let st = st\<lparr> failed_jobs := failed_jobs st @ [job] \<rparr>
               in if returncode job = 0 \<or> returncode job = 1 \<or> returncode job = 2 then
                    (case files e (tmp_file_name job) of
                       None \<Rightarrow> Inl FileNotFoundError
                     | Some f \<Rightarrow>
                         (case content f of
                            None \<Rightarrow> Inl UnicodeDecodeError
                          | Some contents \<Rightarrow>
                              (let st = st\<lparr> xml_results := xml_results st
                                             @ [SuiteOutput (suite_contents status contents)] \<rparr>
                               in if result_passed_or_skipped f
                                  then Inr (st\<lparr> failed_jobs := butlast (failed_jobs st) \<rparr>)
                                  else Inr st)))
                  else
                    Inr (st\<lparr> xml_results := xml_results st
                                @ [TestRecord (display_name job) ''CRASH'' None] \<rparr>))))"

text \<open>
  The loop \<^verbatim>\<open>for i in range(jobs)\<close>, from index \<open>i\<close> on; the list holds the jobs in
  the order in which \<^verbatim>\<open>output_queue.get()\<close> delivers them.
\<close>

fun collect_loop :: "env \<Rightarrow> nat \<Rightarrow> nat \<Rightarrow> collector \<Rightarrow> Job list \<Rightarrow> error + collector" where
  "collect_loop e total_tests i st [] = Inr st"
| "collect_loop e total_tests i st (job # rest) =
     (case collect_job e total_tests i st job of
        Inl err \<Rightarrow> Inl err
      | Inr st' \<Rightarrow> collect_loop e total_tests (Suc i) st' rest)"

definition collect :: "env \<Rightarrow> nat \<Rightarrow> Job list \<Rightarrow> error + collector" where
  "collect e total_tests output_queue = collect_loop e total_tests 0 collector_init output_queue"

text \<open>The value returned at the end of \<^verbatim>\<open>run_tests\<close>, which \<^verbatim>\<open>main\<close> passes to \<^verbatim>\<open>sys.exit\<close>.\<close>

definition run_tests_return :: "nat \<Rightarrow> collector \<Rightarrow> int" where
  "run_tests_return total_tests st =
     (if passed_tests st + skipped_tests st = total_tests then 0 else 1)"

text \<open>
  \<^verbatim>\<open>run_tests\<close> from the collection loop to its return: the final variables and the
  return code, or the exception that ends it.
\<close>

definition run_tests_finish :: "env \<Rightarrow> nat \<Rightarrow> Job list \<Rightarrow> error + (collector \<times> int)" where
  "run_tests_finish e total_tests output_queue =
     (case collect e total_tests output_queue of
        Inl err \<Rightarrow> Inl err
      | Inr st \<Rightarrow> Inr (st, run_tests_return total_tests st))"

text \<open>
  What the workers put on the output queue for the dispatched jobs, and the launches they
  make, when the worker that takes the \<open>k\<close>-th job reads \<open>flags ! k\<close> from
  \<^verbatim>\<open>thread_exit\<close>. The order of the output queue is the order of completion, which is any
  permutation of this list.
\<close>

definition pool_outputs :: "config \<Rightarrow> args \<Rightarrow> env \<Rightarrow> bool list \<Rightarrow> Job list \<Rightarrow> Job list" where
  "pool_outputs cfg a e flags jobs =
     map (\<lambda>(thread_exit, job). fst (worker_body cfg a e thread_exit job)) (zip flags jobs)"

definition pool_launches ::
  "config \<Rightarrow> args \<Rightarrow> env \<Rightarrow> bool list \<Rightarrow> Job list \<Rightarrow> (string \<times> string) list" where
  "pool_launches cfg a e flags jobs =
     concat (map (\<lambda>(thread_exit, job). snd (worker_body cfg a e thread_exit job))
               (zip flags jobs))"

text \<open>
  The flag as the jobs see it when the interrupt arrives after \<open>k\<close> of \<open>n\<close> jobs have
  been started.
\<close>

definition interrupted_after :: "nat \<Rightarrow> nat \<Rightarrow> bool list" where
  "interrupted_after k n = replicate k False @ replicate (n - k) True"

subsection \<open>The queues and the threads\<close>

text \<open>
  The state shared by the threads between dispatch and collection: the input queue, the
  output queue, the global \<^verbatim>\<open>thread_exit\<close> and, for each worker thread, where it stands in
  the loop of \<^verbatim>\<open>worker_thread.run\<close>. A worker is idle before \<^verbatim>\<open>input_queue.get()\<close>, has
  taken a job when \<^verbatim>\<open>get\<close> returned one that is not a sentinel, has finished a job when
  it has gone through the body of the loop and is about to call \<^verbatim>\<open>output_queue.put\<close>,
  and has returned when it took a sentinel. Two logs are kept beside the state of the
  program: the jobs in the order in which workers read \<^verbatim>\<open>thread_exit\<close> for them, each with
  the value read, and the launches made.
\<close>

datatype worker = Idle | Taken Job | Finished Job | Returned

record pool =
  pending :: "Job list"
  delivered :: "Job list"
  exit_flag :: bool
  workers :: "worker list"
  started_log :: "(bool \<times> Job) list"
  launch_log :: "(string \<times> string) list"













subsection \<open>Notions of the specification\<close>

text \<open>
  The tally that the summary line prints next to \<^verbatim>\<open>total_tests\<close>: passed, skipped,
  failed, crashed and valgrind errors.
\<close>

definition counted :: "collector \<Rightarrow> nat" where
  "counted st = passed_tests st + skipped_tests st + failed_tests st + crashed_tests st
     + valgrind_errors st"

text \<open>The display names of the progress lines, in the order printed.\<close>

definition printed_names :: "collector \<Rightarrow> string list" where
  "printed_names st = map (\<lambda>p. snd (snd (snd (snd p)))) (printed st)"

text \<open>
  A result document that yields nothing to the collector: it does not parse, or its root
  has no \<^verbatim>\<open>Result\<close> child.
\<close>

definition malformed :: "disk_file \<Rightarrow> bool" where
  "malformed f = (case tree f of None \<Rightarrow> True | Some root \<Rightarrow> et_find ''Result'' root = None)"

text \<open>
  The specification's reading of a report: the display name \<open>name\<close> has a record of the
  given kind (\<^verbatim>\<open>Test\<close> or \<^verbatim>\<open>Example\<close>) under the root whose outcome is PASS or SKIP.
\<close>

definition recorded_pass_or_skip :: "string \<Rightarrow> xml \<Rightarrow> string \<Rightarrow> bool" where
  "recorded_pass_or_skip kind root name =
     list_ex (\<lambda>x. map_option etext (et_find ''Name'' x) = Some (Some name)
                 \<and> (map_option etext (et_find ''Result'' x) = Some (Some ''PASS'')
                    \<or> map_option etext (et_find ''Result'' x) = Some (Some ''SKIP'')))
       (et_findall kind root)"

text \<open>A report whose \<^verbatim>\<open>Test\<close> and \<^verbatim>\<open>Example\<close> records all have a name and a result.\<close>

definition records_complete :: "xml \<Rightarrow> bool" where
  "records_complete root =
     list_all (\<lambda>x. et_find ''Name'' x \<noteq> None \<and> et_find ''Result'' x \<noteq> None)
       (et_findall ''Test'' root @ et_findall ''Example'' root)"

text \<open>The fullness tiers of the specification, with their order and the names the code uses.\<close>

datatype tier = Quick | Extensive | TakesForever



subsection \<open>A small installation\<close>

text \<open>Concrete inputs on which the statements below are evaluated.\<close>

definition demo_cfg :: config where
  "demo_cfg = \<lparr> NS3_BASEDIR = ''/ns3'', NS3_BUILDDIR = ''/ns3/build'', PYTHON0 = ''python3'',
     test_runner_name = ''test-runner'', ENABLE_EXAMPLES = True, ENABLE_PYTHON_BINDINGS = True,
     getcwd = ''/ns3'', testpy_output_dir = ''out'',
     ns3_runnable_programs_dictionary = [''first'', ''second''],
     ns3_runnable_scripts = [''first.py''] \<rparr>"

definition demo_args :: args where
  "demo_args = \<lparr> valgrind = False, update_data = False, rerun_failed = False, multiple = False,
     fullness = ''QUICK'', suite = '''', example = '''', pyexample = '''', constrain = '''',
     buildpath = '''' \<rparr>"

text \<open>A host where every child process exits with \<open>rc\<close> and the files are \<open>fs\<close>.\<close>

definition demo_env :: "int \<Rightarrow> (string \<Rightarrow> disk_file option) \<Rightarrow> env" where
  "demo_env rc fs = \<lparr> popen = (\<lambda>cmd dir. rc), files = fs,
     path_exists = (\<lambda>path. fs path \<noteq> None), glob_recursive = (\<lambda>name. []) \<rparr>"

definition demo_first :: Job where
  "demo_first = example_job demo_cfg demo_args no_previous_run
                  (''first'', ''examples/first'', True, True, ''QUICK'')"

definition demo_second :: Job where
  "demo_second = example_job demo_cfg demo_args no_previous_run
                   (''second'', ''examples/second'', True, True, ''QUICK'')"

definition demo_core :: Job where
  "demo_core = suite_job demo_cfg demo_args no_previous_run ''core''"

text \<open>A job that is skipped before dispatch: the suite under valgrind that crashes it.\<close>

definition demo_skipped :: Job where
  "demo_skipped =
     suite_job demo_cfg (demo_args\<lparr> valgrind := True \<rparr>) no_previous_run ''routing-click''"

text \<open>A temporary result file cut short, on which the parser fails.\<close>

definition demo_truncated :: disk_file where
  "demo_truncated = \<lparr> content = Some ''<Test><Name>core'', tree = None \<rparr>"

text \<open>A previous report: A passed, B failed, C was skipped, and an example E passed.\<close>

definition demo_record :: "string \<Rightarrow> string \<Rightarrow> string \<Rightarrow> xml" where
  "demo_record kind name result =
     Element kind None [Element ''Name'' (Some name) [], Element ''Result'' (Some result) []]"

definition demo_report :: xml where
  "demo_report = Element ''Results'' None
     [demo_record ''Test'' ''A'' ''PASS'', demo_record ''Test'' ''B'' ''FAIL'',
      demo_record ''Test'' ''C'' ''SKIP'', demo_record ''Example'' ''E'' ''PASS'']"

definition demo_previous_results :: "(string \<times> disk_file) list" where
  "demo_previous_results =
     [(''testpy-output/2026-01-01-results.xml'',
         \<lparr> content = Some '''', tree = Some (Element ''Results'' None []) \<rparr>),
      (''testpy-output/2026-01-02-results.xml'',
         \<lparr> content = Some '''', tree = Some demo_report \<rparr>)]"



section \<open>Properties\<close>

subsection \<open>One step of the worker and of the collector\<close>


lemma worker_body_name:
  "display_name (fst (worker_body cfg a e thread_exit job)) = display_name job"
  by (simp add: worker_body_def Let_def split: prod.splits)

lemma worker_body_started:
  "\<not> is_skip job \<Longrightarrow> is_skip (fst (worker_body cfg a e False job)) = False"
  "is_break (fst (worker_body cfg a e False job)) = is_break job"
  "job_kind (fst (worker_body cfg a e False job)) = job_kind job"
  by (simp_all add: worker_body_def Let_def job_kind_def split: prod.splits)

lemma worker_body_skip:
  "is_skip job \<Longrightarrow> worker_body cfg a e False job = (job, [])"
  "worker_body cfg a e True job = (job\<lparr> is_break := True \<rparr>, [])"
  by (simp_all add: worker_body_def)

lemma worker_body_is_example:
  "is_example (fst (worker_body cfg a e thread_exit job)) = is_example job"
  "is_pyexample (fst (worker_body cfg a e thread_exit job)) = is_pyexample job"
  by (simp_all add: worker_body_def Let_def split: prod.splits)

lemma job_status_fst:
  "fst (job_status st job) =
     (if is_skip job then ''SKIP'' else if returncode job = 0 then ''PASS''
      else if returncode job = 1 then ''FAIL'' else if returncode job = 2 then ''VALGR''
      else ''CRASH'')"
  by (simp add: job_status_def Let_def)

lemma collect_job_break: "is_break job \<Longrightarrow> collect_job e t i st job = Inr st"
  by (simp add: collect_job_def)

lemma collect_job_example:
  "is_example job \<or> is_pyexample job \<Longrightarrow>
   collect_job e t i st job = Inr (projr (collect_job e t i st job))"
  by (simp add: collect_job_def Let_def split: prod.splits)

lemma collect_job_record:
  assumes "\<not> is_break job" "collect_job e t i st job = Inr st'"
  shows "counted st' = Suc (counted st)"
    and "length (xml_results st') = Suc (length (xml_results st))"
    and "printed st' =
           printed st @ [(i, t, fst (job_status st job), job_kind job, display_name job)]"
  using assms
  by (auto simp: collect_job_def Let_def counted_def job_status_def
           split: if_splits option.splits prod.splits)

lemma collect_job_counters:
  assumes "\<not> is_break job" "\<not> is_skip job" "collect_job e t i st job = Inr st'"
  shows "passed_tests st' = passed_tests st + (if returncode job = 0 then 1 else 0)"
    and "failed_tests st' = failed_tests st + (if returncode job = 1 then 1 else 0)"
    and "valgrind_errors st' = valgrind_errors st + (if returncode job = 2 then 1 else 0)"
    and "crashed_tests st' = crashed_tests st + (if returncode job \<notin> {0, 1, 2} then 1 else 0)"
    and "skipped_tests st' = skipped_tests st"
  using assms
  by (auto simp: collect_job_def Let_def job_status_def
           split: if_splits option.splits prod.splits)

subsection \<open>The loop of the collector\<close>

lemma collect_loop_record:
  "collect_loop e t i st out = Inr st' \<Longrightarrow>
     counted st' = counted st + length (filter (\<lambda>j. \<not> is_break j) out)
     \<and> length (xml_results st')
         = length (xml_results st) + length (filter (\<lambda>j. \<not> is_break j) out)
     \<and> printed_names st'
         = printed_names st @ map display_name (filter (\<lambda>j. \<not> is_break j) out)"
proof (induction out arbitrary: i st)
  case Nil
  then show ?case by simp
next
  case (Cons job rest)
  from Cons.prems obtain st1 where
    step: "collect_job e t i st job = Inr st1" and
    loop: "collect_loop e t (Suc i) st1 rest = Inr st'"
    by (auto split: sum.splits)
  note ih = Cons.IH [OF loop]
  show ?case
  proof (cases "is_break job")
    case True
    with step have "st1 = st" by (simp add: collect_job_break)
    with ih True show ?thesis by simp
  next
    case False
    from collect_job_record [OF False step] ih False show ?thesis
      by (simp add: printed_names_def)
  qed
qed

lemma collect_record:
  assumes "collect e t out = Inr st"
  shows "counted st = length (filter (\<lambda>j. \<not> is_break j) out)"
    and "length (xml_results st) = length (filter (\<lambda>j. \<not> is_break j) out)"
    and "printed_names st = map display_name (filter (\<lambda>j. \<not> is_break j) out)"
  using collect_loop_record [of e t 0 collector_init out st] assms
  by (simp_all add: collect_def collector_init_def counted_def printed_names_def)

subsection \<open>What the threads hand back\<close>


















text \<open>
  With one worker the loop of \<^verbatim>\<open>worker_thread.run\<close>, fed the dispatched jobs followed by a
  sentinel, puts exactly these jobs on the output queue and makes exactly these launches.
\<close>

lemma worker_thread_run_single_worker:
  assumes "\<forall>j\<in>set jobs. \<not> is_break j" and "length flags = length jobs" and "is_break stop"
  shows "worker_thread_run cfg a e (zip flags jobs @ [(f, stop)])
         = Some (pool_outputs cfg a e flags jobs, pool_launches cfg a e flags jobs)"
  using assms
proof (induction jobs arbitrary: flags)
  case Nil
  then show ?case by (simp add: pool_outputs_def pool_launches_def)
next
  case (Cons j js)
  then obtain g gs where flags: "flags = g # gs" "length gs = length js"
    by (cases flags) auto
  from Cons.prems(1) have "\<forall>j\<in>set js. \<not> is_break j" and nb: "\<not> is_break j"
    by simp_all
  from Cons.IH [OF this(1) flags(2) Cons.prems(3)]
  have "worker_thread_run cfg a e (zip gs js @ [(f, stop)])
          = Some (pool_outputs cfg a e gs js, pool_launches cfg a e gs js)" .
  then show ?case
    using nb flags(1)
    by (simp add: pool_outputs_def pool_launches_def split: prod.splits)
qed

subsection \<open>Classification by exit code\<close>

text \<open>
  C3. A job that is not skipped and that a worker runs comes back with the exit code of its
  child process, and the collector classifies it by that code alone: 0 is PASS, 1 is FAIL,
  2 is VALGR (the leak-check error) and every other code, such as 139, is CRASH. The status
  is the one of the progress line, the matching counter grows by one and no other counter
  of the tally changes.
\<close>

theorem exit_code_classification:
  assumes "\<not> is_break job" and "\<not> is_skip job"
    and "out = fst (worker_body cfg a e False job)"
    and "collect_job e total_tests i st out = Inr st'"
  shows "(returncode out = 0 \<longrightarrow>
            printed st' = printed st @ [(i, total_tests, ''PASS'', job_kind job, display_name job)]
            \<and> passed_tests st' = passed_tests st + 1)
       \<and> (returncode out = 1 \<longrightarrow>
            printed st' = printed st @ [(i, total_tests, ''FAIL'', job_kind job, display_name job)]
            \<and> failed_tests st' = failed_tests st + 1)
       \<and> (returncode out = 2 \<longrightarrow>
            printed st' = printed st @ [(i, total_tests, ''VALGR'', job_kind job, display_name job)]
            \<and> valgrind_errors st' = valgrind_errors st + 1)
       \<and> (returncode out \<notin> {0, 1, 2} \<longrightarrow>
            printed st' = printed st @ [(i, total_tests, ''CRASH'', job_kind job, display_name job)]
            \<and> crashed_tests st' = crashed_tests st + 1)
       \<and> counted st' = counted st + 1"
proof -
  have nb: "\<not> is_break out" and ns: "\<not> is_skip out"
    using assms(1-3) by (simp_all add: worker_body_started)
  have p: "printed st' = printed st
             @ [(i, total_tests, fst (job_status st out), job_kind job, display_name job)]"
    using collect_job_record(3) [OF nb assms(4)] assms(3)
    by (simp add: worker_body_started worker_body_name)
  show ?thesis
    using p ns collect_job_counters [OF nb ns assms(4)] collect_job_record(1) [OF nb assms(4)]
    by (simp add: job_status_fst)
qed

theorem exit_code_classification_witness:
  "printed (projr (collect_job (demo_env 139 Map.empty) 1 0 collector_init
      (fst (worker_body demo_cfg demo_args (demo_env 139 Map.empty) False demo_first))))
     = [(0, 1, ''CRASH'', ''Example'', ''first'')]
   \<and> crashed_tests (projr (collect_job (demo_env 139 Map.empty) 1 0 collector_init
      (fst (worker_body demo_cfg demo_args (demo_env 139 Map.empty) False demo_first)))) = 1"
proof -
  let ?e = "demo_env 139 Map.empty"
  let ?out = "fst (worker_body demo_cfg demo_args ?e False demo_first)"
  have h1: "\<not> is_break demo_first" and h2: "\<not> is_skip demo_first"
    by (simp_all add: demo_first_def example_job_def fullness_skip_def Job_init_def
          demo_args_def no_previous_run_def)
  have rc: "returncode ?out = 139" and kind: "job_kind demo_first = ''Example''"
    and name: "display_name demo_first = ''first''"
    by (simp_all add: demo_first_def example_job_def fullness_skip_def Job_init_def
          demo_args_def no_previous_run_def worker_body_def run_job_synchronously_def
          demo_env_def job_kind_def Let_def)
  have "is_example demo_first"
    by (simp add: demo_first_def example_job_def fullness_skip_def Job_init_def
          demo_args_def no_previous_run_def)
  then have h4: "collect_job ?e 1 0 collector_init ?out
              = Inr (projr (collect_job ?e 1 0 collector_init ?out))"
    by (intro collect_job_example) (simp add: worker_body_is_example)
  show ?thesis
    using exit_code_classification [OF h1 h2 refl h4] rc kind name
    by (simp add: collector_init_def)
qed

subsection \<open>The return code\<close>

text \<open>
  C8. When \<^verbatim>\<open>run_tests\<close> runs to its end, the code it returns, which becomes the exit
  code of the process, is 0 exactly when the number of dispatched jobs equals the number
  passed plus the number skipped, and is 1 otherwise.
\<close>

theorem return_code_zero_iff_passed_or_skipped:
  assumes "run_tests_finish e total_tests output_queue = Inr (st, code)"
  shows "(code = 0 \<longleftrightarrow> total_tests = passed_tests st + skipped_tests st)
         \<and> (code \<noteq> 0 \<longrightarrow> code = 1)"
  using assms
  by (auto simp: run_tests_finish_def run_tests_return_def split: sum.splits if_splits)

theorem return_code_zero_iff_passed_or_skipped_witness:
  "snd (projr (run_tests_finish (demo_env 1 Map.empty) 1
      [fst (worker_body demo_cfg demo_args (demo_env 1 Map.empty) False demo_first)])) = 1
   \<and> passed_tests (fst (projr (run_tests_finish (demo_env 1 Map.empty) 1
      [fst (worker_body demo_cfg demo_args (demo_env 1 Map.empty) False demo_first)]))) = 0
   \<and> skipped_tests (fst (projr (run_tests_finish (demo_env 1 Map.empty) 1
      [fst (worker_body demo_cfg demo_args (demo_env 1 Map.empty) False demo_first)]))) = 0"
proof -
  let ?r = "run_tests_finish (demo_env 1 Map.empty) 1
      [fst (worker_body demo_cfg demo_args (demo_env 1 Map.empty) False demo_first)]"
  have ev: "map_sum id (\<lambda>p. (passed_tests (fst p), skipped_tests (fst p))) ?r = Inr (0, 0)"
    by (simp add: run_tests_finish_def collect_def collect_job_def job_status_def job_kind_def
          example_record_def collector_init_def worker_body_def run_job_synchronously_def
          demo_env_def demo_first_def example_job_def fullness_skip_def Job_init_def
          demo_args_def no_previous_run_def Let_def)
  then obtain st code where r: "?r = Inr (st, code)"
    by (cases ?r) auto
  with ev have "passed_tests st = 0" "skipped_tests st = 0" by simp_all
  with return_code_zero_iff_passed_or_skipped [OF r] r show ?thesis
    by simp
qed

text \<open>
  C10. The classification looks at the exit code only, never at the valgrind option: a
  job run without the wrapper and the same job run under it, when their exit codes agree,
  get the same progress line and the same counters; and a job that exits with 2 in a run
  made without valgrind is counted as a valgrind error, with status VALGR.
\<close>

theorem classification_ignores_valgrind_option:
  assumes "\<not> is_break job" and "\<not> is_skip job"
    and "\<not> valgrind a" and "valgrind a'"
    and "out = fst (worker_body cfg a e False job)"
    and "out' = fst (worker_body cfg a' e' False job)"
    and "returncode out = returncode out'"
    and "collect_job e total_tests i st out = Inr st1"
    and "collect_job e' total_tests i st out' = Inr st2"
  shows "printed st1 = printed st2
         \<and> passed_tests st1 = passed_tests st2 \<and> failed_tests st1 = failed_tests st2
         \<and> valgrind_errors st1 = valgrind_errors st2 \<and> crashed_tests st1 = crashed_tests st2
         \<and> (returncode out = 2 \<longrightarrow>
              printed st1
                = printed st @ [(i, total_tests, ''VALGR'', job_kind job, display_name job)]
              \<and> valgrind_errors st1 = valgrind_errors st + 1
              \<and> valgrind_testnames st1 = valgrind_testnames st @ [display_name job])"
proof -
  have nb: "\<not> is_break out" "\<not> is_break out'" and ns: "\<not> is_skip out" "\<not> is_skip out'"
    using assms(1,2,5,6) by (simp_all add: worker_body_started)
  have same: "job_kind out = job_kind out'" "display_name out = display_name out'"
    "job_kind out = job_kind job" "display_name out = display_name job"
    using assms(5,6) by (simp_all add: worker_body_started worker_body_name)
  have status: "fst (job_status st out) = fst (job_status st out')"
    using ns assms(7) by (simp add: job_status_fst)
  have p1: "printed st1 = printed st
              @ [(i, total_tests, fst (job_status st out), job_kind job, display_name job)]"
    using collect_job_record(3) [OF nb(1) assms(8)] same by simp
  have p2: "printed st2 = printed st
              @ [(i, total_tests, fst (job_status st out'), job_kind job, display_name job)]"
    using collect_job_record(3) [OF nb(2) assms(9)] same by simp
  have p: "printed st1 = printed st2"
    using p1 p2 status by simp
  have c: "passed_tests st1 = passed_tests st2" "failed_tests st1 = failed_tests st2"
    "valgrind_errors st1 = valgrind_errors st2" "crashed_tests st1 = crashed_tests st2"
    using collect_job_counters [OF nb(1) ns(1) assms(8)]
      collect_job_counters [OF nb(2) ns(2) assms(9)] assms(7)
    by simp_all
  have v1: "returncode out = 2 \<Longrightarrow>
              printed st1
                = printed st @ [(i, total_tests, ''VALGR'', job_kind job, display_name job)]"
    using p1 ns(1) by (simp add: job_status_fst)
  have v2: "returncode out = 2 \<Longrightarrow> valgrind_errors st1 = valgrind_errors st + 1"
    using collect_job_counters(3) [OF nb(1) ns(1) assms(8)] by simp
  have v3: "returncode out = 2 \<Longrightarrow>
              valgrind_testnames st1 = valgrind_testnames st @ [display_name job]"
    using assms(8) nb(1) ns(1) same(4)
    by (auto simp: collect_job_def Let_def job_status_def
             split: if_splits option.splits prod.splits)
  show ?thesis
    using p c v1 v2 v3 by blast
qed

theorem classification_ignores_valgrind_option_witness:
  "\<not> valgrind demo_args
   \<and> returncode (fst (worker_body demo_cfg demo_args (demo_env 2 Map.empty) False demo_first)) = 2
   \<and> printed (projr (collect_job (demo_env 2 Map.empty) 1 0 collector_init
        (fst (worker_body demo_cfg demo_args (demo_env 2 Map.empty) False demo_first))))
       = [(0, 1, ''VALGR'', ''Example'', ''first'')]
   \<and> valgrind_errors (projr (collect_job (demo_env 2 Map.empty) 1 0 collector_init
        (fst (worker_body demo_cfg demo_args (demo_env 2 Map.empty) False demo_first)))) = 1"
proof -
  let ?e = "demo_env 2 Map.empty"
  let ?a' = "demo_args\<lparr> valgrind := True \<rparr>"
  let ?out = "fst (worker_body demo_cfg demo_args ?e False demo_first)"
  let ?out' = "fst (worker_body demo_cfg ?a' ?e False demo_first)"
  have h1: "\<not> is_break demo_first" and h2: "\<not> is_skip demo_first"
    and ex: "is_example demo_first"
    by (simp_all add: demo_first_def example_job_def fullness_skip_def Job_init_def
          demo_args_def no_previous_run_def)
  have h3: "\<not> valgrind demo_args" and h4: "valgrind ?a'"
    by (simp_all add: demo_args_def)
  have rc: "returncode ?out = 2" "returncode ?out' = 2"
    and kind: "job_kind demo_first = ''Example''"
    and name: "display_name demo_first = ''first''"
    by (simp_all add: demo_first_def example_job_def fullness_skip_def Job_init_def
          demo_args_def no_previous_run_def worker_body_def run_job_synchronously_def
          demo_env_def job_kind_def Let_def)
  have h8: "collect_job ?e 1 0 collector_init ?out
              = Inr (projr (collect_job ?e 1 0 collector_init ?out))"
    and h9: "collect_job ?e 1 0 collector_init ?out'
              = Inr (projr (collect_job ?e 1 0 collector_init ?out'))"
    using ex by (intro collect_job_example, simp add: worker_body_is_example)+
  have h7: "returncode ?out = returncode ?out'"
    using rc by simp
  note t = classification_ignores_valgrind_option [OF h1 h2 h3 h4 refl refl h7 h8 h9]
  from t rc(1) have
    "printed (projr (collect_job ?e 1 0 collector_init ?out))
       = printed collector_init @ [(0, 1, ''VALGR'', job_kind demo_first, display_name demo_first)]"
    and "valgrind_errors (projr (collect_job ?e 1 0 collector_init ?out))
       = valgrind_errors collector_init + 1"
    by blast+
  then show ?thesis
    using rc(1) kind name h3 by (simp add: collector_init_def)
qed

subsection \<open>Interrupted runs\<close>




text \<open>
  C2, as the code has it. When the collection loop has taken all \<^verbatim>\<open>total_tests\<close> jobs
  from the output queue, \<^verbatim>\<open>total_tests\<close> is the sum of the five counters plus the number
  of jobs that came back marked \<^verbatim>\<open>is_break\<close>, which no counter counts. The equation of
  the specification holds for the runs in which no job comes back so marked.
\<close>

theorem total_is_tally_plus_interrupted:
  assumes "collect e total_tests output_queue = Inr st"
    and "total_tests = length output_queue"
  shows "total_tests
           = passed_tests st + skipped_tests st + failed_tests st + crashed_tests st
             + valgrind_errors st + length (filter is_break output_queue)
         \<and> ((\<forall>j\<in>set output_queue. \<not> is_break j) \<longrightarrow>
              total_tests = passed_tests st + skipped_tests st + failed_tests st
                + crashed_tests st + valgrind_errors st)"
proof -
  have "length output_queue
          = length (filter (\<lambda>j. \<not> is_break j) output_queue)
            + length (filter is_break output_queue)"
    using sum_length_filter_compl [of is_break output_queue] by simp
  then have total: "total_tests = counted st + length (filter is_break output_queue)"
    using collect_record(1) [OF assms(1)] assms(2) by simp
  moreover have "(\<forall>j\<in>set output_queue. \<not> is_break j) \<longrightarrow> filter is_break output_queue = []"
    by (simp add: filter_empty_conv)
  ultimately show ?thesis
    by (auto simp: counted_def)
qed

theorem total_is_tally_plus_interrupted_witness:
  "counted (projr (collect (demo_env 1 Map.empty) (length [demo_first, demo_second])
      (pool_outputs demo_cfg demo_args (demo_env 1 Map.empty) [False, False]
         [demo_first, demo_second]))) = 2
   \<and> failed_tests (projr (collect (demo_env 1 Map.empty) (length [demo_first, demo_second])
      (pool_outputs demo_cfg demo_args (demo_env 1 Map.empty) [False, False]
         [demo_first, demo_second]))) = 2"
proof -
  let ?e = "demo_env 1 Map.empty"
  let ?pool = "pool_outputs demo_cfg demo_args ?e [False, False] [demo_first, demo_second]"
  let ?r = "collect ?e (length [demo_first, demo_second]) ?pool"
  have ev: "map_sum id failed_tests ?r = Inr 2"
    by code_simp
  then have h1: "?r = Inr (projr ?r)"
    by (cases ?r) simp_all
  have h2: "length [demo_first, demo_second] = length ?pool"
    by (simp add: pool_outputs_def)
  have nb: "filter is_break ?pool = []"
    by code_simp
  from ev h1 have f: "failed_tests (projr ?r) = 2"
    by (metis map_sum.simps(2) sum.inject(2))
  show ?thesis
    using total_is_tally_plus_interrupted [OF h1 h2] nb f
    by (simp add: counted_def)
qed

text \<open>
  Against C2 as stated: one example is dispatched and the interrupt arrives before it is
  started. \<^verbatim>\<open>total_tests\<close> is 1 and the five counters sum to 0.
\<close>

theorem interrupted_job_not_counted:
  "map_sum id counted
     (collect (demo_env 0 Map.empty) 1
        (pool_outputs demo_cfg demo_args (demo_env 0 Map.empty) (interrupted_after 0 1)
           [demo_first]))
   = Inr 0"
  by code_simp

subsection \<open>Jobs skipped before dispatch\<close>

text \<open>
  C5, as the code has it. A job whose skip flag is set before dispatch never causes a
  launch, whatever the worker reads from \<^verbatim>\<open>thread_exit\<close>. When the flag is clear the job
  passes through the worker unchanged and the collector counts it as skipped, prints its
  line and appends a SKIP record with the reason to the results file, and nothing else
  changes. When the flag is set the job comes back marked \<^verbatim>\<open>is_break\<close> and the collector
  leaves every counter and the results file as they were.
\<close>

theorem skipped_job_never_launched:
  assumes "is_skip job" and "\<not> is_break job"
  shows "snd (worker_body cfg a e thread_exit job) = []
         \<and> (\<not> thread_exit \<longrightarrow>
              collect_job e total_tests i st (fst (worker_body cfg a e thread_exit job))
              = Inr (st\<lparr> skipped_tests := skipped_tests st + 1,
                         skipped_testnames := skipped_testnames st
                           @ [display_name job @ '' ('' @ skip_reason job @ '')''],
                         printed := printed st
                           @ [(i, total_tests, ''SKIP'', job_kind job, display_name job)],
                         xml_results := xml_results st
                           @ [if is_example job \<or> is_pyexample job
                              then ExampleRecord (display_name job) ''SKIP''
                                     (Some (skip_reason job))
                              else TestRecord (display_name job) ''SKIP''
                                     (Some (skip_reason job))] \<rparr>))
         \<and> (thread_exit \<longrightarrow>
              collect_job e total_tests i st (fst (worker_body cfg a e thread_exit job))
              = Inr st)"
proof (cases thread_exit)
  case True
  then show ?thesis
    by (simp add: worker_body_skip collect_job_break)
next
  case False
  with assms show ?thesis
    by (simp add: worker_body_skip collect_job_def job_status_def example_record_def
          Let_def)
qed

theorem skipped_job_never_launched_witness:
  "is_skip demo_skipped \<and> \<not> is_break demo_skipped
   \<and> pool_launches demo_cfg (demo_args\<lparr> valgrind := True \<rparr>) (demo_env 0 Map.empty) [False]
       [demo_skipped] = []
   \<and> map_sum id xml_results
       (collect_job (demo_env 0 Map.empty) 1 0 collector_init
          (fst (worker_body demo_cfg (demo_args\<lparr> valgrind := True \<rparr>) (demo_env 0 Map.empty)
                  False demo_skipped)))
     = Inr [TestRecord ''routing-click'' ''SKIP'' (Some ''crashes valgrind'')]"
proof -
  have h1: "is_skip demo_skipped" and h2: "\<not> is_break demo_skipped"
    and ex: "\<not> (is_example demo_skipped \<or> is_pyexample demo_skipped)"
    and name: "display_name demo_skipped = ''routing-click''"
    and reason: "skip_reason demo_skipped = ''crashes valgrind''"
    by (simp_all add: demo_skipped_def suite_job_def Job_init_def demo_args_def
          no_previous_run_def core_valgrind_skip_tests_def Let_def)
  show ?thesis
    using skipped_job_never_launched [OF h1 h2, of demo_cfg "demo_args\<lparr> valgrind := True \<rparr>"
        "demo_env 0 Map.empty" False 1 0 collector_init] h1 h2 ex name reason
    by (simp add: pool_launches_def collector_init_def)
qed

text \<open>
  Against C5 as stated: the suite that is skipped under valgrind is dispatched, and the
  worker takes it after the interrupt. Nothing is launched, but the collector ends as it
  began: no SKIP record is written and the job is not counted.
\<close>

theorem skipped_job_dropped_when_interrupted:
  "is_skip demo_skipped
   \<and> collect (demo_env 0 Map.empty) 1
       (pool_outputs demo_cfg (demo_args\<lparr> valgrind := True \<rparr>) (demo_env 0 Map.empty) [True]
          [demo_skipped])
     = Inr collector_init"
  by code_simp

subsection \<open>Result documents that cannot be read\<close>

text \<open>
  C4, as the code has it. Take a suite job whose process exits with 0, 1 or 2 and whose
  result document exists and is read as UTF-8 text, but is malformed: it does not parse,
  or has no \<^verbatim>\<open>Result\<close> element. The collector does not raise and does not record a
  crash: the status and the counter are those of the exit code (PASS, FAIL or VALGR). The
  text of the document goes into the results file, unchanged when the exit code is 0 or
  1; when the exit code is 2 the collector writes the text up to the end of the first
  \<^verbatim>\<open><Result>\<close> tag, then VALGR, then the text from the first \<^verbatim>\<open></Result>\<close> tag on, where a
  tag that does not occur makes \<^verbatim>\<open>find\<close> return -1, so that the first seven characters
  stand for the first part and the last character for the second. The job is put on the
  list of failed jobs, once when the exit code is 0 and twice otherwise.
\<close>

theorem malformed_document_keeps_exit_code_status:
  assumes "\<not> is_break job" and "\<not> is_skip job"
    and "\<not> is_example job" and "\<not> is_pyexample job"
    and "returncode job = 0 \<or> returncode job = 1 \<or> returncode job = 2"
    and "files e (tmp_file_name job) = Some f" and "content f = Some contents"
    and "malformed f"
    and "status = (if returncode job = 0 then ''PASS''
                   else if returncode job = 1 then ''FAIL'' else ''VALGR'')"
  shows "\<exists>st'. collect_job e total_tests i st job = Inr st'
           \<and> crashed_tests st' = crashed_tests st
           \<and> counted st' = counted st + 1
           \<and> printed st' = printed st @ [(i, total_tests, status, ''TestSuite'', display_name job)]
           \<and> xml_results st'
               = xml_results st
                 @ [SuiteOutput
                      (if returncode job = 2
                       then slice_to contents (py_find contents ''<Result>'' + 8) @ ''VALGR''
                            @ slice_from contents (py_find contents ''</Result>'')
                       else contents)]
           \<and> failed_jobs st'
               = failed_jobs st @ (if returncode job = 0 then [job] else [job, job])"
proof -
  have r: "\<not> result_passed_or_skipped f"
    using assms(8) by (auto simp: malformed_def result_passed_or_skipped_def split: option.splits)
  show ?thesis
    using assms(1-7,9) r
    by (auto simp: collect_job_def job_status_def job_kind_def counted_def suite_contents_def
          Let_def)
qed

theorem malformed_document_keeps_exit_code_status_witness:
  "malformed demo_truncated
   \<and> map_sum id printed
       (collect_job (demo_env 2 [''out/core.xml'' \<mapsto> demo_truncated]) 1 0 collector_init
          (fst (worker_body demo_cfg demo_args (demo_env 2 [''out/core.xml'' \<mapsto> demo_truncated])
                  False demo_core)))
     = Inr [(0, 1, ''VALGR'', ''TestSuite'', ''core'')]
   \<and> map_sum id xml_results
       (collect_job (demo_env 2 [''out/core.xml'' \<mapsto> demo_truncated]) 1 0 collector_init
          (fst (worker_body demo_cfg demo_args (demo_env 2 [''out/core.xml'' \<mapsto> demo_truncated])
                  False demo_core)))
     = Inr [SuiteOutput ''<Test><VALGRe'']"
proof -
  let ?e = "demo_env 2 [''out/core.xml'' \<mapsto> demo_truncated]"
  let ?out = "fst (worker_body demo_cfg demo_args ?e False demo_core)"
  have h: "\<not> is_break ?out" "\<not> is_skip ?out" "\<not> is_example ?out" "\<not> is_pyexample ?out"
    and rc: "returncode ?out = 2"
    and f: "files ?e (tmp_file_name ?out) = Some demo_truncated"
    and name: "display_name ?out = ''core''"
    by (simp_all add: demo_core_def suite_job_def Job_init_def demo_args_def demo_cfg_def
          no_previous_run_def core_valgrind_skip_tests_def worker_body_def
          run_job_synchronously_def demo_env_def os_path_join_def Let_def)
  have c: "content demo_truncated = Some ''<Test><Name>core''"
    by (simp add: demo_truncated_def)
  have m: "malformed demo_truncated"
    by (simp add: malformed_def demo_truncated_def)
  have splice: "slice_to ''<Test><Name>core'' (py_find ''<Test><Name>core'' ''<Result>'' + 8)
                  @ ''VALGR'' @ slice_from ''<Test><Name>core'' (py_find ''<Test><Name>core'' ''</Result>'')
                = ''<Test><VALGRe''"
    by code_simp
  from rc have h5: "returncode ?out = 0 \<or> returncode ?out = 1 \<or> returncode ?out = 2"
    by simp
  from malformed_document_keeps_exit_code_status [OF h h5 f c m refl, of 1 0 collector_init]
  obtain st' where
    "collect_job ?e 1 0 collector_init ?out = Inr st'"
    "printed st' = printed collector_init @ [(0, 1, ''VALGR'', ''TestSuite'', ''core'')]"
    "xml_results st' = xml_results collector_init @ [SuiteOutput ''<Test><VALGRe'']"
    using rc name splice by auto
  then show ?thesis
    using m by (simp add: collector_init_def)
qed

text \<open>
  Against C4 as stated: the suite \<^verbatim>\<open>core\<close> exits with 1 and leaves a result document cut
  short. The collector counts a failure, not a crash, and copies the fragment into the
  results file instead of a CRASH record.
\<close>

theorem truncated_document_is_not_a_crash:
  "map_sum id xml_results
     (collect_job (demo_env 1 [''out/core.xml'' \<mapsto> demo_truncated]) 1 0 collector_init
        (fst (worker_body demo_cfg demo_args (demo_env 1 [''out/core.xml'' \<mapsto> demo_truncated])
                False demo_core)))
   = Inr [SuiteOutput ''<Test><Name>core'']
   \<and> map_sum id crashed_tests
     (collect_job (demo_env 1 [''out/core.xml'' \<mapsto> demo_truncated]) 1 0 collector_init
        (fst (worker_body demo_cfg demo_args (demo_env 1 [''out/core.xml'' \<mapsto> demo_truncated])
                False demo_core)))
   = Inr 0
   \<and> map_sum id failed_tests
     (collect_job (demo_env 1 [''out/core.xml'' \<mapsto> demo_truncated]) 1 0 collector_init
        (fst (worker_body demo_cfg demo_args (demo_env 1 [''out/core.xml'' \<mapsto> demo_truncated])
                False demo_core)))
   = Inr 1"
  by code_simp

text \<open>
  When the result document of such a job does not exist, or exists with bytes that are
  not UTF-8, \<^verbatim>\<open>open\<close> or \<^verbatim>\<open>read\<close> raises before the \<^verbatim>\<open>try\<close> block is reached, and the
  exception leaves the collection loop.
\<close>

lemma missing_document_raises:
  assumes "\<not> is_break job" and "\<not> is_skip job"
    and "\<not> is_example job" and "\<not> is_pyexample job"
    and "returncode job = 0 \<or> returncode job = 1 \<or> returncode job = 2"
    and "files e (tmp_file_name job) = None"
  shows "collect_job e total_tests i st job = Inl FileNotFoundError"
  using assms
  by (auto simp: collect_job_def job_status_def Let_def)

lemma undecodable_document_raises:
  assumes "\<not> is_break job" and "\<not> is_skip job"
    and "\<not> is_example job" and "\<not> is_pyexample job"
    and "returncode job = 0 \<or> returncode job = 1 \<or> returncode job = 2"
    and "files e (tmp_file_name job) = Some f" and "content f = None"
  shows "collect_job e total_tests i st job = Inl UnicodeDecodeError"
  using assms
  by (auto simp: collect_job_def job_status_def Let_def)

subsection \<open>Fullness\<close>





text \<open>
  The fullness of an example is brought to upper case and checked when the list of
  examples is read; that of a Python example reaches the loop as the list has it, and the
  loop compares it as written.
\<close>

lemma python_fullness_compared_as_written:
  "is_skip (python_job demo_cfg (demo_args\<lparr> fullness := ''EXTENSIVE'' \<rparr>)
              (''first.py'', True, ''extensive''))"
  by code_simp

subsection \<open>The rerun filter\<close>

lemma find_filter: "List.find P xs = (case filter P xs of [] \<Rightarrow> None | x # _ \<Rightarrow> Some x)"
  by (induction xs) auto

lemma et_find_findall:
  "et_find t e = (case et_findall t e of [] \<Rightarrow> None | x # _ \<Rightarrow> Some x)"
  by (simp add: et_find_def et_findall_def find_filter)

lemma et_find_children: "et_find t x \<noteq> None \<Longrightarrow> children x \<noteq> []"
  by (auto simp: et_find_def)

lemma map_result_total:
  "list_all (\<lambda>x. f x = Inr (g x)) xs \<Longrightarrow> map_result f xs = Inr (map g xs)"
  by (induction xs) auto

lemma name_and_result_complete:
  "et_find ''Name'' x \<noteq> None \<and> et_find ''Result'' x \<noteq> None \<Longrightarrow>
   name_and_result x
     = Inr (etext (the (et_find ''Name'' x)), etext (the (et_find ''Result'' x)))"
  by (auto simp: name_and_result_def)

text \<open>On complete records the loader returns the names recorded with PASS or SKIP.\<close>

lemma successful_names_complete:
  assumes "list_all (\<lambda>x. et_find ''Name'' x \<noteq> None \<and> et_find ''Result'' x \<noteq> None)
             (et_findall kind root)"
  shows "\<exists>names. successful_names kind root = Inr names
           \<and> (\<forall>n. Some n \<in> set names \<longleftrightarrow> recorded_pass_or_skip kind root n)"
proof -
  let ?nr = "\<lambda>x. (etext (the (et_find ''Name'' x)), etext (the (et_find ''Result'' x)))"
  let ?names = "map fst (filter (\<lambda>p. snd p \<in> set [Some ''PASS'', Some ''SKIP''])
                           (map ?nr (et_findall kind root)))"
  have all: "list_all (\<lambda>x. name_and_result x = Inr (?nr x)) (et_findall kind root)"
    using assms by (auto simp: list_all_iff name_and_result_complete)
  have m: "map_result name_and_result (et_findall kind root)
             = Inr (map ?nr (et_findall kind root))"
    by (rule map_result_total [OF all])
  have s: "successful_names kind root = Inr ?names"
  proof (cases "et_findall kind root")
    case Nil
    then show ?thesis
      by (simp add: successful_names_def et_find_findall element_truth_def)
  next
    case (Cons x xs)
    with assms have "et_find ''Name'' x \<noteq> None"
      by simp
    then have "children x \<noteq> []"
      by (rule et_find_children)
    with Cons have "element_truth (et_find kind root)"
      by (simp add: et_find_findall element_truth_def)
    then show ?thesis
      using m by (simp add: successful_names_def)
  qed
  have "Some n \<in> set ?names \<longleftrightarrow> recorded_pass_or_skip kind root n" for n
  proof -
    have pt: "(map_option etext (et_find ''Name'' x) = Some (Some n)
               \<and> (map_option etext (et_find ''Result'' x) = Some (Some ''PASS'')
                  \<or> map_option etext (et_find ''Result'' x) = Some (Some ''SKIP'')))
              \<longleftrightarrow> (etext (the (et_find ''Name'' x)) = Some n
                   \<and> (etext (the (et_find ''Result'' x)) = Some ''PASS''
                      \<or> etext (the (et_find ''Result'' x)) = Some ''SKIP''))"
      if "x \<in> set (et_findall kind root)" for x
    proof -
      from that assms obtain y z where
        "et_find ''Name'' x = Some y" "et_find ''Result'' x = Some z"
        by (auto simp: list_all_iff)
      then show ?thesis by simp
    qed
    have "Some n \<in> set ?names \<longleftrightarrow>
            (\<exists>x\<in>set (et_findall kind root).
               etext (the (et_find ''Name'' x)) = Some n
               \<and> (etext (the (et_find ''Result'' x)) = Some ''PASS''
                  \<or> etext (the (et_find ''Result'' x)) = Some ''SKIP''))"
      by (force simp: filter_map comp_def image_iff)
    also have "\<dots> \<longleftrightarrow> recorded_pass_or_skip kind root n"
      unfolding recorded_pass_or_skip_def list_ex_iff using pt by blast
    finally show ?thesis .
  qed
  with s show ?thesis by blast
qed

lemma load_complete:
  assumes "previous_results \<noteq> []"
    and "tree (snd (latest_result_file previous_results)) = Some root"
    and "records_complete root"
  shows "\<exists>prev. load_previously_successful_tests previous_results = Inr prev
           \<and> (\<forall>n. Some n \<in> set (test_names prev) \<longleftrightarrow> recorded_pass_or_skip ''Test'' root n)
           \<and> (\<forall>n. Some n \<in> set (example_names prev)
                    \<longleftrightarrow> recorded_pass_or_skip ''Example'' root n)"
proof -
  from assms(3) obtain tests where
    t: "successful_names ''Test'' root = Inr tests"
       "\<forall>n. Some n \<in> set tests \<longleftrightarrow> recorded_pass_or_skip ''Test'' root n"
    using successful_names_complete [of "''Test''" root]
    by (auto simp: records_complete_def)
  from assms(3) obtain examples where
    x: "successful_names ''Example'' root = Inr examples"
       "\<forall>n. Some n \<in> set examples \<longleftrightarrow> recorded_pass_or_skip ''Example'' root n"
    using successful_names_complete [of "''Example''" root]
    by (auto simp: records_complete_def)
  have "load_previously_successful_tests previous_results
          = Inr \<lparr> test_names = tests, example_names = examples \<rparr>"
    using assms(1,2) t(1) x(1) by (simp add: load_previously_successful_tests_def)
  with t(2) x(2) show ?thesis by simp
qed

lemma suite_job_rerun:
  "rerun_failed a \<Longrightarrow> Some t \<in> set (test_names prev) \<Longrightarrow>
     is_skip (suite_job cfg a prev t) \<and> skip_reason (suite_job cfg a prev t) = not_failed_reason"
  "Some t \<notin> set (test_names prev) \<Longrightarrow>
     suite_job cfg a prev t = suite_job cfg (a\<lparr> rerun_failed := False \<rparr>) prev t"
  by (simp_all add: suite_job_def Let_def)

lemma example_job_rerun:
  "rerun_failed a \<Longrightarrow> Some name \<in> set (example_names prev) \<Longrightarrow>
     is_skip (example_job cfg a prev (name, test, do_run, do_valgrind_run, tr))
     \<and> (skip_reason (example_job cfg a prev (name, test, do_run, do_valgrind_run, tr))
          = not_failed_reason
        \<or> skip_reason (example_job cfg a prev (name, test, do_run, do_valgrind_run, tr))
          = ''skip '' @ tr @ '' examples when '' @ fullness a @ '' run selected'')"
  "Some name \<notin> set (example_names prev) \<Longrightarrow>
     example_job cfg a prev (name, test, do_run, do_valgrind_run, tr)
       = example_job cfg (a\<lparr> rerun_failed := False \<rparr>) prev
           (name, test, do_run, do_valgrind_run, tr)"
  by (simp_all add: example_job_def fullness_skip_def Let_def)

text \<open>
  C6, as the code has it, for suites and for the examples of \<^verbatim>\<open>example_tests\<close>. Let the
  latest report parse, with a name and a result in each of its records, and let the run be
  made in rerun mode. The loader returns two lists, one per kind of record: the names of
  the \<^verbatim>\<open>Test\<close> records whose result is PASS or SKIP, and the names of the \<^verbatim>\<open>Example\<close>
  records whose result is PASS or SKIP. A suite whose name is on the first list, and an
  example whose name is on the second, is queued as skipped, with the reason that it did
  not fail in the previous run (for an example, unless the fullness check replaces the
  reason by its own). A suite or an example whose name is not on the list of its kind is
  queued as it would be without the rerun mode.
\<close>

theorem rerun_filter_skips_recorded_successes:
  assumes "previous_results \<noteq> []"
    and "tree (snd (latest_result_file previous_results)) = Some root"
    and "records_complete root"
    and "rerun_failed a"
    and "entry = (name, test, do_run, do_valgrind_run, tr)"
  shows "\<exists>prev. load_previously_successful_tests previous_results = Inr prev
           \<and> (Some t \<in> set (test_names prev) \<longleftrightarrow> recorded_pass_or_skip ''Test'' root t)
           \<and> (Some name \<in> set (example_names prev)
                \<longleftrightarrow> recorded_pass_or_skip ''Example'' root name)
           \<and> (recorded_pass_or_skip ''Test'' root t \<longrightarrow>
                is_skip (suite_job cfg a prev t)
                \<and> skip_reason (suite_job cfg a prev t) = not_failed_reason)
           \<and> (\<not> recorded_pass_or_skip ''Test'' root t \<longrightarrow>
                suite_job cfg a prev t = suite_job cfg (a\<lparr> rerun_failed := False \<rparr>) prev t)
           \<and> (recorded_pass_or_skip ''Example'' root name \<longrightarrow>
                is_skip (example_job cfg a prev entry)
                \<and> (skip_reason (example_job cfg a prev entry) = not_failed_reason
                   \<or> skip_reason (example_job cfg a prev entry)
                     = ''skip '' @ tr @ '' examples when '' @ fullness a @ '' run selected''))
           \<and> (\<not> recorded_pass_or_skip ''Example'' root name \<longrightarrow>
                example_job cfg a prev entry
                  = example_job cfg (a\<lparr> rerun_failed := False \<rparr>) prev entry)"
proof -
  from load_complete [OF assms(1-3)] obtain prev where
    l: "load_previously_successful_tests previous_results = Inr prev"
    and tn: "Some t \<in> set (test_names prev) \<longleftrightarrow> recorded_pass_or_skip ''Test'' root t"
    and en: "Some name \<in> set (example_names prev)
               \<longleftrightarrow> recorded_pass_or_skip ''Example'' root name"
    by blast
  have s1: "recorded_pass_or_skip ''Test'' root t \<longrightarrow>
              is_skip (suite_job cfg a prev t)
              \<and> skip_reason (suite_job cfg a prev t) = not_failed_reason"
    using suite_job_rerun(1) [OF assms(4)] tn by blast
  have s2: "\<not> recorded_pass_or_skip ''Test'' root t \<longrightarrow>
              suite_job cfg a prev t = suite_job cfg (a\<lparr> rerun_failed := False \<rparr>) prev t"
    using suite_job_rerun(2) tn by blast
  have x1: "recorded_pass_or_skip ''Example'' root name \<longrightarrow>
              is_skip (example_job cfg a prev entry)
              \<and> (skip_reason (example_job cfg a prev entry) = not_failed_reason
                 \<or> skip_reason (example_job cfg a prev entry)
                   = ''skip '' @ tr @ '' examples when '' @ fullness a @ '' run selected'')"
    unfolding assms(5) using example_job_rerun(1) [OF assms(4)] en by blast
  have x2: "\<not> recorded_pass_or_skip ''Example'' root name \<longrightarrow>
              example_job cfg a prev entry
                = example_job cfg (a\<lparr> rerun_failed := False \<rparr>) prev entry"
    unfolding assms(5) using example_job_rerun(2) en by blast
  show ?thesis
    using l tn en s1 s2 x1 x2 by (intro exI [of _ prev]) (intro conjI)
qed

theorem rerun_filter_skips_recorded_successes_witness:
  "load_previously_successful_tests demo_previous_results
     = Inr \<lparr> test_names = [Some ''A'', Some ''C''], example_names = [Some ''E''] \<rparr>
   \<and> recorded_pass_or_skip ''Test'' demo_report ''A''
   \<and> is_skip (suite_job demo_cfg (demo_args\<lparr> rerun_failed := True \<rparr>)
        \<lparr> test_names = [Some ''A'', Some ''C''], example_names = [Some ''E''] \<rparr> ''A'')
   \<and> \<not> recorded_pass_or_skip ''Test'' demo_report ''B''
   \<and> suite_job demo_cfg (demo_args\<lparr> rerun_failed := True \<rparr>)
        \<lparr> test_names = [Some ''A'', Some ''C''], example_names = [Some ''E''] \<rparr> ''B''
     = suite_job demo_cfg demo_args
        \<lparr> test_names = [Some ''A'', Some ''C''], example_names = [Some ''E''] \<rparr> ''B''"
proof -
  let ?a = "demo_args\<lparr> rerun_failed := True \<rparr>"
  let ?prev = "\<lparr> test_names = [Some ''A'', Some ''C''], example_names = [Some ''E''] \<rparr>"
  have h1: "demo_previous_results \<noteq> []"
    by (simp add: demo_previous_results_def)
  have h2: "tree (snd (latest_result_file demo_previous_results)) = Some demo_report"
    by code_simp
  have h3: "records_complete demo_report"
    by code_simp
  have h4: "rerun_failed ?a"
    by simp
  have l: "load_previously_successful_tests demo_previous_results = Inr ?prev"
    by code_simp
  have ra: "recorded_pass_or_skip ''Test'' demo_report ''A''"
    and rb: "\<not> recorded_pass_or_skip ''Test'' demo_report ''B''"
    by code_simp+
  have off: "?a\<lparr> rerun_failed := False \<rparr> = demo_args"
    by (simp add: demo_args_def)
  from rerun_filter_skips_recorded_successes [OF h1 h2 h3 h4 refl, where t = "''A''" and cfg = demo_cfg] l ra
  have a: "is_skip (suite_job demo_cfg ?a ?prev ''A'')"
    by auto
  from rerun_filter_skips_recorded_successes [OF h1 h2 h3 h4 refl, where t = "''B''" and cfg = demo_cfg] l rb
  have b: "suite_job demo_cfg ?a ?prev ''B'' = suite_job demo_cfg demo_args ?prev ''B''"
    by (auto simp: off)
  from l ra a rb b show ?thesis
    by (intro conjI)
qed

text \<open>
  Against C6 as stated: in the previous report the display name E has the outcome PASS,
  recorded for an example. In the rerun a suite with the display name E is not turned into
  a skip, because suites are matched against the names of \<^verbatim>\<open>Test\<close> records only.
\<close>

theorem rerun_filter_matches_per_kind:
  "load_previously_successful_tests demo_previous_results
     = Inr \<lparr> test_names = [Some ''A'', Some ''C''], example_names = [Some ''E''] \<rparr>
   \<and> is_skip (example_job demo_cfg (demo_args\<lparr> rerun_failed := True \<rparr>)
        \<lparr> test_names = [Some ''A'', Some ''C''], example_names = [Some ''E''] \<rparr>
        (''E'', ''examples/first'', True, True, ''QUICK''))
   \<and> \<not> is_skip (suite_job demo_cfg (demo_args\<lparr> rerun_failed := True \<rparr>)
        \<lparr> test_names = [Some ''A'', Some ''C''], example_names = [Some ''E''] \<rparr> ''E'')"
  by code_simp

text \<open>
  The loop over \<^verbatim>\<open>python_tests\<close> and the branch for \<^verbatim>\<open>--pyexample\<close> do not consult the
  previous results: a Python example is queued the same way whatever the rerun option.
\<close>

lemma python_job_ignores_rerun:
  "python_job cfg (a\<lparr> rerun_failed := True \<rparr>) entry
     = python_job cfg (a\<lparr> rerun_failed := False \<rparr>) entry"
  by (cases entry) (simp add: python_job_def fullness_skip_def Let_def)

lemma dispatch_python_ignores_rerun:
  "dispatch_python cfg (a\<lparr> rerun_failed := True \<rparr>) e python_tests
     = dispatch_python cfg (a\<lparr> rerun_failed := False \<rparr>) e python_tests"
  by (simp add: dispatch_python_def python_job_ignores_rerun Let_def split: list.splits)

subsection \<open>The latest report\<close>

lemma last_sort_key_greatest:
  assumes "xs \<noteq> []"
  shows "last (sort_key k xs) \<in> set xs \<and> (\<forall>x\<in>set xs. k x \<le> k (last (sort_key k xs)))"
proof -
  let ?ys = "sort_key k xs"
  have ne: "?ys \<noteq> []" using assms by (metis length_0_conv length_sort)
  have s: "sorted (map k ?ys)" by simp
  have mem: "last ?ys \<in> set xs"
    using ne last_in_set [of ?ys] by simp
  have "k x \<le> k (last ?ys)" if "x \<in> set xs" for x
  proof -
    from that have "x \<in> set ?ys" by simp
    then obtain i where i: "i < length ?ys" "?ys ! i = x"
      unfolding in_set_conv_nth by blast
    have "map k ?ys ! i \<le> map k ?ys ! (length ?ys - 1)"
      using s i(1) by (intro sorted_nth_mono) simp_all
    then show ?thesis
      using i ne by (simp add: last_conv_nth)
  qed
  with mem show ?thesis by blast
qed

lemma latest_result_file_greatest:
  assumes "xs \<noteq> []"
  shows "latest_result_file xs \<in> set xs
         \<and> (\<forall>x\<in>set xs. os_path_basename (fst x)
                          \<le> os_path_basename (fst (latest_result_file xs)))"
proof -
  let ?k = "\<lambda>x. os_path_basename (fst x)"
  have ne: "sort_key ?k (rev xs) \<noteq> []"
    using assms by (metis length_0_conv length_sort length_rev)
  have "latest_result_file xs = last (sort_key ?k (rev xs))"
    using ne by (simp add: latest_result_file_def hd_rev)
  then show ?thesis
    using last_sort_key_greatest [of "rev xs" ?k] assms by simp
qed

lemma latest_result_file_permuted:
  assumes "mset xs = mset ys"
    and "distinct (map (\<lambda>x. os_path_basename (fst x)) xs)"
  shows "latest_result_file xs = latest_result_file ys"
proof (cases "xs = []")
  case True
  with assms(1) show ?thesis by simp
next
  case False
  with assms(1) have ne: "ys \<noteq> []" by auto
  have set: "set xs = set ys"
    using assms(1) by (rule mset_eq_setD)
  let ?k = "\<lambda>x. os_path_basename (fst x)"
  have inj: "inj_on ?k (set xs)"
    using assms(2) by (simp add: distinct_map)
  note gx = latest_result_file_greatest [OF False]
  note gy = latest_result_file_greatest [OF ne]
  have "?k (latest_result_file xs) \<le> ?k (latest_result_file ys)"
    using gx gy set by blast
  moreover have "?k (latest_result_file ys) \<le> ?k (latest_result_file xs)"
    using gx gy set by blast
  ultimately have "?k (latest_result_file xs) = ?k (latest_result_file ys)"
    by (rule order_antisym)
  then show ?thesis
    using inj gx gy set by (auto dest: inj_onD)
qed

text \<open>
  C9. The skip lists that the rerun filter computes are determined by the report files
  that exist: two loads that find the same files, whatever the order in which
  \<^verbatim>\<open>glob\<close> lists them, pick the same latest report and return the same lists (or stop
  with the same error). The files of one directory have distinct base names.
\<close>

theorem rerun_filter_same_skip_set:
  assumes "mset previous_results = mset previous_results'"
    and "distinct (map (\<lambda>x. os_path_basename (fst x)) previous_results)"
  shows "load_previously_successful_tests previous_results
         = load_previously_successful_tests previous_results'"
proof -
  have "previous_results = [] \<longleftrightarrow> previous_results' = []"
    using assms(1) by auto
  then show ?thesis
    using latest_result_file_permuted [OF assms]
    by (simp add: load_previously_successful_tests_def)
qed

theorem rerun_filter_same_skip_set_witness:
  "load_previously_successful_tests (rev demo_previous_results)
     = load_previously_successful_tests demo_previous_results
   \<and> load_previously_successful_tests demo_previous_results
     = Inr \<lparr> test_names = [Some ''A'', Some ''C''], example_names = [Some ''E''] \<rparr>"
proof -
  have h1: "mset (rev demo_previous_results) = mset demo_previous_results"
    by simp
  have "distinct (map (\<lambda>x. os_path_basename (fst x)) demo_previous_results)"
    by code_simp
  then have h2: "distinct (map (\<lambda>x. os_path_basename (fst x)) (rev demo_previous_results))"
    by (simp add: rev_map [symmetric])
  have l: "load_previously_successful_tests demo_previous_results
             = Inr \<lparr> test_names = [Some ''A'', Some ''C''], example_names = [Some ''E''] \<rparr>"
    by code_simp
  from rerun_filter_same_skip_set [OF h1 h2] l show ?thesis
    by simp
qed

end
